theory Spec2Isabelle
  imports Complex_Main "HOL-Library.Sublist" "HOL-Library.Char_ord" "HOL-Library.List_Lexorder"
begin

chapter \<open>The model\<close>

section \<open>Strings\<close>

text \<open>
  Column names and file names are Python \<open>str\<close> values. They are modelled as
  \<open>string\<close> with every character an ASCII code point: the character tests below
  follow \<open>str.isspace\<close>, \<open>str.isalnum\<close> and \<open>str.lower\<close> on the code points
  0 to 127 and treat the remaining byte values as neither white space nor alphanumeric
  nor upper case.
\<close>

definition isspace :: "char \<Rightarrow> bool" where
  "isspace c = (let n = (of_char c :: nat) in (9 \<le> n \<and> n \<le> 13) \<or> (28 \<le> n \<and> n \<le> 32))"

definition isupper :: "char \<Rightarrow> bool" where
  "isupper c = (let n = (of_char c :: nat) in 65 \<le> n \<and> n \<le> 90)"

definition isalnum :: "char \<Rightarrow> bool" where
  "isalnum c = (let n = (of_char c :: nat) in
     (48 \<le> n \<and> n \<le> 57) \<or> (65 \<le> n \<and> n \<le> 90) \<or> (97 \<le> n \<and> n \<le> 122))"

definition lower_char :: "char \<Rightarrow> char" where
  "lower_char c = (if isupper c then char_of ((of_char c :: nat) + 32) else c)"

definition lower :: "string \<Rightarrow> string" where
  "lower s = map lower_char s"

text \<open>\<open>s.strip()\<close> and \<open>s.strip("_")\<close>: drop the characters from both ends.\<close>

definition strip_by :: "(char \<Rightarrow> bool) \<Rightarrow> string \<Rightarrow> string" where
  "strip_by P s = rev (dropWhile P (rev (dropWhile P s)))"

definition strip :: "string \<Rightarrow> string" where
  "strip s = strip_by isspace s"

definition endswith :: "string \<Rightarrow> string \<Rightarrow> bool" where
  "endswith s suf = (length suf \<le> length s \<and> drop (length s - length suf) s = suf)"

section \<open>Column-name normalization\<close>

abbreviation (input) us :: char where
  "us \<equiv> CHR ''_''"

text \<open>\<open>"__" in s\<close>\<close>

fun has_dunder :: "string \<Rightarrow> bool" where
  "has_dunder (a # b # s) = ((a = us \<and> b = us) \<or> has_dunder (b # s))"
| "has_dunder s = False"

text \<open>\<open>s.replace("__", "_")\<close>: the occurrences are found left to right and do not overlap.\<close>

fun replace_dunder :: "string \<Rightarrow> string" where
  "replace_dunder (a # b # s) =
     (if a = us \<and> b = us then us # replace_dunder s else a # replace_dunder (b # s))"
| "replace_dunder s = s"

lemma length_replace_dunder_le: "length (replace_dunder s) \<le> length s"
  by (induction s rule: replace_dunder.induct) auto

lemma length_replace_dunder_less: "has_dunder s \<Longrightarrow> length (replace_dunder s) < length s"
proof (induction s rule: replace_dunder.induct)
  case (1 a b s)
  show ?case
  proof (cases "a = us \<and> b = us")
    case True
    then show ?thesis
      using length_replace_dunder_le [of s] by simp
  next
    case False
    with 1 show ?thesis by auto
  qed
qed simp_all

text \<open>\<open>while "__" in normalized: normalized = normalized.replace("__", "_")\<close>\<close>

function collapse_loop :: "string \<Rightarrow> string" where
  "collapse_loop s = (if has_dunder s then collapse_loop (replace_dunder s) else s)"
  by pat_completeness auto
termination
  by (relation "measure length") (auto simp: length_replace_dunder_less)

declare collapse_loop.simps [simp del]

definition safe_char :: "char \<Rightarrow> char" where
  "safe_char c = (if isalnum c then c else us)"

definition normalize_column_name :: "string \<Rightarrow> string" where
  "normalize_column_name name =
     (let normalized = lower (strip name);
          normalized = map safe_char normalized;
          normalized = collapse_loop normalized;
          normalized = strip_by (\<lambda>c. c = us) normalized
      in if normalized = [] then ''column'' else normalized)"




section \<open>Tables\<close>

text \<open>
  A pandas \<open>DataFrame\<close> as the pipeline uses it: row labels (\<open>df.index\<close>) and an
  ordered sequence of named, typed columns. A value is null (\<open>None\<close>, \<open>NaN\<close>,
  \<open>pd.NA\<close>), a number or a string. Numbers are exact reals: the rounding of 64-bit
  floats is not part of the model. The dtype is one of the three kinds of the data model:
  numeric (\<open>int64\<close>, \<open>float64\<close>), text (the \<open>string\<close> dtype) and mixed
  (\<open>object\<close>, which is also what \<open>read_csv\<close> gives a column of strings).
\<close>

datatype cell = Null | Num real | Str string

datatype dtype = Numeric | Text | Mixed

record column =
  cname :: string
  dtype :: dtype
  cvalues :: "cell list"

record table =
  index :: "nat list"
  columns :: "column list"

datatype py_error =
    FileNotFoundError string
  | OSError string
  | RuntimeError string string
  | KeyError string
  | AttributeError
  | ValueError
  | TypeError

definition notna :: "cell \<Rightarrow> bool" where
  "notna v = (v \<noteq> Null)"

definition isna :: "cell \<Rightarrow> bool" where
  "isna v = (v = Null)"

definition names :: "table \<Rightarrow> string list" where
  "names df = map cname (columns df)"

definition nrows :: "table \<Rightarrow> nat" where
  "nrows df = length (index df)"

text \<open>\<open>pd.DataFrame()\<close> and \<open>df.empty\<close>: no columns or no rows.\<close>

definition empty_table :: table where
  "empty_table = \<lparr>index = [], columns = []\<rparr>"

definition df_empty :: "table \<Rightarrow> bool" where
  "df_empty df = (columns df = [] \<or> index df = [])"


text \<open>
  \<open>df[name]\<close> selects every column labelled \<open>name\<close>: a \<open>Series\<close> when there is
  exactly one, a \<open>DataFrame\<close> when the label is repeated. The pipeline's loops treat
  the result as a \<open>Series\<close>; on a repeated label the first \<open>Series\<close>-only
  operation raises, which the functions below return as an error.
\<close>

definition getitem :: "table \<Rightarrow> string \<Rightarrow> column list" where
  "getitem df name = filter (\<lambda>c. cname c = name) (columns df)"

text \<open>\<open>df[name] = series\<close>: replaces the column in place, or appends a new one.\<close>

definition setitem :: "table \<Rightarrow> string \<Rightarrow> dtype \<Rightarrow> cell list \<Rightarrow> table" where
  "setitem df name dt vals =
     (if name \<in> set (names df)
      then df\<lparr>columns := map (\<lambda>c. if cname c = name then c\<lparr>dtype := dt, cvalues := vals\<rparr> else c)
                              (columns df)\<rparr>
      else df\<lparr>columns := columns df @ [\<lparr>cname = name, dtype = dt, cvalues = vals\<rparr>]\<rparr>)"

text \<open>\<open>df.select_dtypes(include=...).columns\<close>\<close>

definition select_dtypes :: "dtype list \<Rightarrow> table \<Rightarrow> string list" where
  "select_dtypes include df = map cname (filter (\<lambda>c. dtype c \<in> set include) (columns df))"

text \<open>Selection by a boolean mask, \<open>xs[mask]\<close>.\<close>

definition compress :: "bool list \<Rightarrow> 'a list \<Rightarrow> 'a list" where
  "compress keep xs = map snd (filter fst (zip keep xs))"

definition select_rows :: "bool list \<Rightarrow> table \<Rightarrow> table" where
  "select_rows keep df =
     \<lparr>index = compress keep (index df),
      columns = map (\<lambda>c. c\<lparr>cvalues := compress keep (cvalues c)\<rparr>) (columns df)\<rparr>"

definition row :: "table \<Rightarrow> nat \<Rightarrow> cell list" where
  "row df i = map (\<lambda>c. cvalues c ! i) (columns df)"

definition rows :: "table \<Rightarrow> cell list list" where
  "rows df = map (row df) [0..<nrows df]"

text \<open>
  \<open>df.duplicated()\<close>: a row is marked when an earlier row has the same values in all
  columns (nulls compare equal); an empty frame has no marks.
\<close>

definition duplicated :: "table \<Rightarrow> bool list" where
  "duplicated df =
     (if df_empty df then []
      else map (\<lambda>i. list_ex (\<lambda>j. row df j = row df i) [0..<i]) [0..<nrows df])"

text \<open>\<open>df.drop_duplicates()\<close> keeps the unmarked rows with their labels.\<close>

definition drop_duplicates :: "table \<Rightarrow> table" where
  "drop_duplicates df = (if df_empty df then df else select_rows (map Not (duplicated df)) df)"

section \<open>Cleaning\<close>

text \<open>Decimal rendering of an integer in an f-string.\<close>

function str_nat :: "nat \<Rightarrow> string" where
  "str_nat n = (if n < 10 then [char_of (48 + n)] else str_nat (n div 10) @ [char_of (48 + n mod 10)])"
  by pat_completeness auto
termination
  by (relation "measure id") auto

declare str_nat.simps [simp del]

text \<open>
  The collision loop of \<open>normalize_column_names\<close> over \<open>list(rename_map.items())\<close>,
  with the dictionaries \<open>seen\<close> and \<open>rename_map\<close> as its state.
\<close>

fun collision_loop ::
  "(string \<times> string) list \<Rightarrow> (string \<rightharpoonup> nat) \<times> (string \<times> string) list
    \<Rightarrow> (string \<rightharpoonup> nat) \<times> (string \<times> string) list" where
  "collision_loop [] st = st"
| "collision_loop ((original, normalized) # items) (seen, rename_map) =
     (case seen normalized of
        None \<Rightarrow> collision_loop items (seen(normalized \<mapsto> 1), rename_map)
      | Some k \<Rightarrow>
          collision_loop items
            (seen(normalized \<mapsto> k + 1),
             map (\<lambda>(key, v). if key = original then (key, normalized @ ''_'' @ str_nat (k + 1)) else (key, v))
               rename_map))"

text \<open>
  The first occurrence of each value, in order (\<open>remdups\<close> keeps the last occurrence
  of each value, so on the reversed list it keeps the first). These are the keys of a
  dictionary built from a sequence of keys.
\<close>

definition first_occurrences :: "'a list \<Rightarrow> 'a list" where
  "first_occurrences xs = rev (remdups (rev xs))"

text \<open>\<open>df.rename(columns=rename_map)\<close>: a label that is no key stays.\<close>

definition rename :: "(string \<times> string) list \<Rightarrow> table \<Rightarrow> table" where
  "rename rename_map df =
     df\<lparr>columns := map (\<lambda>c. case map_of rename_map (cname c) of
                                 Some new \<Rightarrow> c\<lparr>cname := new\<rparr> | None \<Rightarrow> c) (columns df)\<rparr>"

definition normalize_column_names :: "table \<Rightarrow> table" where
  "normalize_column_names df =
     (let rename_map = map (\<lambda>name. (name, normalize_column_name name)) (first_occurrences (names df));
          (seen, rename_map) = collision_loop rename_map (Map.empty, rename_map)
      in rename rename_map df)"

text \<open>
  \<open>series.astype("string").str.strip().replace({"": pd.NA})\<close> on one value;
  \<open>str_of\<close> is the text pandas gives a number.
\<close>

fun standardize_cell :: "(real \<Rightarrow> string) \<Rightarrow> cell \<Rightarrow> cell" where
  "standardize_cell str_of Null = Null"
| "standardize_cell str_of (Str s) = (if strip s = [] then Null else Str (strip s))"
| "standardize_cell str_of (Num x) = (if strip (str_of x) = [] then Null else Str (strip (str_of x)))"

fun strip_loop :: "(real \<Rightarrow> string) \<Rightarrow> string list \<Rightarrow> table \<Rightarrow> py_error + table" where
  "strip_loop str_of [] cleaned = Inr cleaned"
| "strip_loop str_of (column_name # rest) cleaned =
     (case getitem cleaned column_name of
        [s] \<Rightarrow> strip_loop str_of rest
                 (setitem cleaned column_name Text (map (standardize_cell str_of) (cvalues s)))
      | _ \<Rightarrow> Inl AttributeError)"

definition strip_and_standardize_strings :: "(real \<Rightarrow> string) \<Rightarrow> table \<Rightarrow> py_error + table" where
  "strip_and_standardize_strings str_of df = strip_loop str_of (select_dtypes [Mixed] df) df"

text \<open>
  \<open>pd.to_numeric(series, errors="coerce")\<close> on one value; \<open>to_num\<close> is pandas'
  parser of a string, \<open>None\<close> where it fails (or yields \<open>NaN\<close>).
\<close>

fun to_numeric :: "(string \<Rightarrow> real option) \<Rightarrow> cell \<Rightarrow> cell" where
  "to_numeric to_num Null = Null"
| "to_numeric to_num (Num x) = Num x"
| "to_numeric to_num (Str s) = (case to_num s of None \<Rightarrow> Null | Some x \<Rightarrow> Num x)"

text \<open>\<open>coerced[non_null_mask].notna().mean()\<close>\<close>

definition convertible_ratio :: "(string \<Rightarrow> real option) \<Rightarrow> cell list \<Rightarrow> real" where
  "convertible_ratio to_num original =
     (let non_null_mask = map notna original;
          coerced = map (to_numeric to_num) original;
          selected = compress non_null_mask coerced
      in real (length (filter notna selected)) / real (length selected))"

fun convert_loop ::
  "(string \<Rightarrow> real option) \<Rightarrow> real \<Rightarrow> string list \<Rightarrow> table \<Rightarrow> py_error + table" where
  "convert_loop to_num threshold [] converted_df = Inr converted_df"
| "convert_loop to_num threshold (column_name # rest) converted_df =
     (case getitem converted_df column_name of
        [original_series] \<Rightarrow>
          (if length (filter notna (cvalues original_series)) = 0
           then convert_loop to_num threshold rest converted_df
           else if convertible_ratio to_num (cvalues original_series) \<ge> threshold
           then convert_loop to_num threshold rest
                  (setitem converted_df column_name Numeric
                     (map (to_numeric to_num) (cvalues original_series)))
           else convert_loop to_num threshold rest converted_df)
      | _ \<Rightarrow> Inl ValueError)"

definition convert_mostly_numeric_columns ::
  "(string \<Rightarrow> real option) \<Rightarrow> table \<Rightarrow> real \<Rightarrow> py_error + table" where
  "convert_mostly_numeric_columns to_num df threshold =
     convert_loop to_num threshold (select_dtypes [Mixed, Text] df) df"

text \<open>\<open>df.dropna(axis=1, how="all")\<close>\<close>

definition drop_empty_columns :: "table \<Rightarrow> table" where
  "drop_empty_columns df = df\<lparr>columns := filter (\<lambda>c. list_ex notna (cvalues c)) (columns df)\<rparr>"

definition remove_duplicate_rows :: "table \<Rightarrow> table" where
  "remove_duplicate_rows df = drop_duplicates df"

definition clean_dataframe ::
  "(real \<Rightarrow> string) \<Rightarrow> (string \<Rightarrow> real option) \<Rightarrow> table \<Rightarrow> py_error + table" where
  "clean_dataframe str_of to_num df =
     (let step1 = normalize_column_names df in
      case strip_and_standardize_strings str_of step1 of
        Inl e \<Rightarrow> Inl e
      | Inr step2 \<Rightarrow>
          (case convert_mostly_numeric_columns to_num step2 (9 / 10) of
             Inl e \<Rightarrow> Inl e
           | Inr step3 \<Rightarrow>
               (let step4 = drop_empty_columns step3;
                    step5 = remove_duplicate_rows step4
                in Inr step5)))"

section \<open>Profiling\<close>

text \<open>
  The statistics block of a profile row: \<open>min\<close>, \<open>max\<close>, \<open>mean\<close>, \<open>std\<close> for a
  numeric column (\<open>None\<close> stands for a null entry, \<open>None\<close> or \<open>NaN\<close>), or
  \<open>sample_values\<close> otherwise.
\<close>

datatype summary =
    NumericSummary "real option" "real option" "real option" "real option"
  | SampleValues string

record profile =
  p_column_name :: string
  dtype_str :: dtype
  total_count :: nat
  non_null_count :: nat
  null_count :: nat
  null_pct :: real
  num_unique :: nat
  summary :: summary

text \<open>
  Python's \<open>round(x, 6)\<close>, on the exact quotient: to the nearest multiple of
  \<open>10\<^sup>-\<^sup>6\<close>, a tie to the even one.
\<close>

definition round6 :: "real \<Rightarrow> real" where
  "round6 x =
     (let y = x * 1000000; f = \<lfloor>y\<rfloor>; d = y - of_int f
      in of_int (if d < 1 / 2 then f else if d > 1 / 2 then f + 1
                 else if even f then f else f + 1) / 1000000)"

text \<open>The numbers of a series, nulls skipped, and the reductions pandas computes on them
  (\<open>skipna=True\<close>; \<open>std\<close> is the sample standard deviation, \<open>ddof=1\<close>); \<open>None\<close>
  is \<open>NaN\<close>. The square root is a parameter, \<open>sqroot\<close>, so that the definitions
  can be evaluated; the theorems take \<open>sqrt\<close> for it.\<close>

fun numbers :: "cell list \<Rightarrow> real list" where
  "numbers [] = []"
| "numbers (Num x # vs) = x # numbers vs"
| "numbers (v # vs) = numbers vs"

definition series_min :: "cell list \<Rightarrow> real option" where
  "series_min vs = (let xs = numbers vs in if xs = [] then None else Some (Min (set xs)))"

definition series_max :: "cell list \<Rightarrow> real option" where
  "series_max vs = (let xs = numbers vs in if xs = [] then None else Some (Max (set xs)))"

definition series_mean :: "cell list \<Rightarrow> real option" where
  "series_mean vs =
     (let xs = numbers vs in if xs = [] then None else Some (sum_list xs / real (length xs)))"

definition series_std :: "(real \<Rightarrow> real) \<Rightarrow> cell list \<Rightarrow> real option" where
  "series_std sqroot vs =
     (let xs = numbers vs; n = length xs
      in if n < 2 then None
         else let m = sum_list xs / real n
              in Some (sqroot (sum_list (map (\<lambda>x. (x - m)\<^sup>2) xs) / real (n - 1))))"

text \<open>\<open>astype(str)\<close> and \<open>astype("string")\<close> on one non-null value.\<close>

fun astype_str :: "(real \<Rightarrow> string) \<Rightarrow> cell \<Rightarrow> string" where
  "astype_str str_of (Str s) = s"
| "astype_str str_of (Num x) = str_of x"
| "astype_str str_of Null = []"

text \<open>\<open>sep.join(xs)\<close>\<close>

fun join :: "string \<Rightarrow> string list \<Rightarrow> string" where
  "join sep [] = []"
| "join sep [x] = x"
| "join sep (x # y # zs) = x @ sep @ join sep (y # zs)"

text \<open>The body of the loop of \<open>profile_columns\<close> for one series.\<close>

definition profile_series ::
  "(real \<Rightarrow> real) \<Rightarrow> (real \<Rightarrow> string) \<Rightarrow> string \<Rightarrow> column \<Rightarrow> profile" where
  "profile_series sqroot str_of name series =
     (let non_null = length (filter notna (cvalues series));
          nulls = length (filter isna (cvalues series));
          total = length (cvalues series);
          pct = (if total \<noteq> 0 then real nulls / real total else 0);
          unique = length (remdups (filter notna (cvalues series)))
      in \<lparr>p_column_name = name, dtype_str = dtype series, total_count = total,
           non_null_count = non_null, null_count = nulls, null_pct = round6 pct,
           num_unique = unique,
           summary =
             (if dtype series = Numeric
              then NumericSummary
                     (if non_null \<noteq> 0 then series_min (cvalues series) else None)
                     (if non_null \<noteq> 0 then series_max (cvalues series) else None)
                     (if non_null \<noteq> 0 then series_mean (cvalues series) else None)
                     (if non_null \<noteq> 0 then series_std sqroot (cvalues series) else None)
              else SampleValues
                     (join '', ''
                        (take 5 (first_occurrences
                                   (map (astype_str str_of) (filter notna (cvalues series)))))))\<rparr>)"

fun profile_loop ::
  "(real \<Rightarrow> real) \<Rightarrow> (real \<Rightarrow> string) \<Rightarrow> table \<Rightarrow> string list \<Rightarrow> profile list
    \<Rightarrow> py_error + profile list" where
  "profile_loop sqroot str_of df [] profiles = Inr profiles"
| "profile_loop sqroot str_of df (name # rest) profiles =
     (case getitem df name of
        [series] \<Rightarrow>
          profile_loop sqroot str_of df rest (profiles @ [profile_series sqroot str_of name series])
      | _ \<Rightarrow> Inl TypeError)"

definition profile_columns ::
  "(real \<Rightarrow> real) \<Rightarrow> (real \<Rightarrow> string) \<Rightarrow> table \<Rightarrow> py_error + profile list" where
  "profile_columns sqroot str_of df = profile_loop sqroot str_of df (names df) []"

section \<open>The file system\<close>

text \<open>
  What the pipeline reads from its environment: \<open>os.path.isdir\<close>, \<open>os.listdir\<close>
  (\<open>None\<close> when it raises) and \<open>pd.read_csv\<close> (\<open>Inl\<close> the exception it raises).
\<close>

record filesystem =
  isdir :: "string \<Rightarrow> bool"
  listdir :: "string \<Rightarrow> string list option"
  read_csv :: "string \<Rightarrow> string + table"

definition excluded_filenames :: "string list" where
  "excluded_filenames =
     [''FAF5_MERGED.csv'', ''FAF5_MERGED_CLEANED.csv'',
      ''FAF5_VALIDATION_COLUMNS.csv'', ''FAF5_VALIDATION_ISSUES.csv'']"

text \<open>\<open>os.path.join(dir, name)\<close> for a file name from a listing.\<close>

definition path_join :: "string \<Rightarrow> string \<Rightarrow> string" where
  "path_join d name = (if d = [] \<or> last d = CHR ''/'' then d @ name else d @ ''/'' @ name)"

section \<open>Validation\<close>

datatype issue_kind =
    missing_values | negative_values | source_file_missing | source_file_null
  | source_file_empty | source_file_invalid | duplicate_rows

text \<open>
  The \<open>details\<close> text of an issue. The two f-strings that render a list keep the list:
  the row labels of \<open>"Sample row indices: [...]"\<close> and the values of
  \<open>"Values not in FAF5 directory: [...]"\<close>.
\<close>

datatype details =
    Message string
  | SampleRowIndices "nat list"
  | ValuesNotInDirectory "string list"

record issue =
  issue_type :: issue_kind
  icolumn :: string
  icount :: nat
  pct :: real
  details :: details

text \<open>\<open>round(count / len(df), 6) if len(df) else 0.0\<close>\<close>

definition pct_of :: "nat \<Rightarrow> table \<Rightarrow> real" where
  "pct_of n df = (if nrows df \<noteq> 0 then round6 (real n / real (nrows df)) else 0)"

text \<open>The condition of the set comprehension that builds \<open>allowed_files\<close>.\<close>

definition allowed_name :: "string \<Rightarrow> bool" where
  "allowed_name name = (endswith (lower name) ''.csv'' \<and> name \<notin> set excluded_filenames)"

fun missing_loop :: "table \<Rightarrow> string list \<Rightarrow> issue list \<Rightarrow> py_error + issue list" where
  "missing_loop df [] issues = Inr issues"
| "missing_loop df (column_name # rest) issues =
     (case getitem df column_name of
        [series] \<Rightarrow>
          (let null_count = length (filter isna (cvalues series))
           in if null_count > 0
              then missing_loop df rest
                     (issues @ [\<lparr>issue_type = missing_values, icolumn = column_name,
                                 icount = null_count, pct = pct_of null_count df,
                                 details = Message ''Column contains missing values''\<rparr>])
              else missing_loop df rest issues)
      | _ \<Rightarrow> Inl TypeError)"

text \<open>\<open>series < 0\<close> on one value: a null compares false.\<close>

fun negative :: "cell \<Rightarrow> bool" where
  "negative (Num x) = (x < 0)"
| "negative v = False"

fun negative_loop :: "table \<Rightarrow> string list \<Rightarrow> issue list \<Rightarrow> py_error + issue list" where
  "negative_loop df [] issues = Inr issues"
| "negative_loop df (column_name # rest) issues =
     (case getitem df column_name of
        [series] \<Rightarrow>
          (let neg_mask = map negative (cvalues series);
               neg_count = length (filter id neg_mask)
           in if neg_count > 0
              then let sample_idx = take 10 (compress neg_mask (index df))
                   in negative_loop df rest
                        (issues @ [\<lparr>issue_type = negative_values, icolumn = column_name,
                                    icount = neg_count, pct = pct_of neg_count df,
                                    details = SampleRowIndices sample_idx\<rparr>])
              else negative_loop df rest issues)
      | _ \<Rightarrow> Inl TypeError)"

text \<open>Block 3 of \<open>gather_validation_issues\<close>: the integrity of \<open>source_file\<close>.\<close>

definition source_file_checks ::
  "(real \<Rightarrow> string) \<Rightarrow> string list \<Rightarrow> table \<Rightarrow> issue list \<Rightarrow> py_error + issue list" where
  "source_file_checks str_of allowed_files df issues =
     (if ''source_file'' \<notin> set (names df)
      then Inr (issues @ [\<lparr>issue_type = source_file_missing, icolumn = ''source_file'',
                            icount = nrows df, pct = (if nrows df \<noteq> 0 then 1 else 0),
                            details = Message ''Column 'source_file' not found''\<rparr>])
      else
        (case getitem df ''source_file'' of
           [series] \<Rightarrow>
             (let sf_series = map (\<lambda>v. if isna v then Null else Str (astype_str str_of v))
                                 (cvalues series);
                  null_count = length (filter isna sf_series);
                  issues = (if null_count > 0
                            then issues @ [\<lparr>issue_type = source_file_null,
                                            icolumn = ''source_file'', icount = null_count,
                                            pct = pct_of null_count df,
                                            details = Message (''Null values present in 'source_file'' @ [CHR 0x27])\<rparr>]
                            else issues);
                  empty_count = length (filter (\<lambda>v. notna v \<and> strip (astype_str str_of v) = [])
                                          sf_series);
                  issues = (if empty_count > 0
                            then issues @ [\<lparr>issue_type = source_file_empty,
                                            icolumn = ''source_file'', icount = empty_count,
                                            pct = pct_of empty_count df,
                                            details = Message (''Empty string values present in 'source_file'' @ [CHR 0x27])\<rparr>]
                            else issues)
              in if allowed_files \<noteq> []
                 then (let invalid_mask = map (\<lambda>v. notna v \<and> astype_str str_of v \<notin> set allowed_files)
                                             sf_series;
                           invalid_count = length (filter id invalid_mask)
                       in if invalid_count > 0
                          then (let sample_vals =
                                      take 10 (first_occurrences
                                                 (map (astype_str str_of) (compress invalid_mask sf_series)))
                                in Inr (issues @ [\<lparr>issue_type = source_file_invalid,
                                                   icolumn = ''source_file'', icount = invalid_count,
                                                   pct = pct_of invalid_count df,
                                                   details = ValuesNotInDirectory sample_vals\<rparr>]))
                          else Inr issues)
                 else Inr issues)
         | _ \<Rightarrow> Inl TypeError))"

text \<open>Block 4: duplicate rows.\<close>

definition duplicate_check :: "table \<Rightarrow> issue list \<Rightarrow> issue list" where
  "duplicate_check df issues =
     (let dup_count = length (filter id (duplicated df))
      in if dup_count > 0
         then issues @ [\<lparr>issue_type = duplicate_rows, icolumn = [], icount = dup_count,
                         pct = pct_of dup_count df,
                         details = Message ''Exact duplicate rows detected''\<rparr>]
         else issues)"

definition gather_validation_issues ::
  "(real \<Rightarrow> string) \<Rightarrow> filesystem \<Rightarrow> table \<Rightarrow> string \<Rightarrow> py_error + issue list" where
  "gather_validation_issues str_of fs df faf5_dir =
     (let issues = [];
          allowed_files = (case listdir fs faf5_dir of
                             None \<Rightarrow> []
                           | Some listing \<Rightarrow> first_occurrences (filter allowed_name listing))
      in case missing_loop df (names df) issues of
           Inl e \<Rightarrow> Inl e
         | Inr issues \<Rightarrow>
             (case negative_loop df (select_dtypes [Numeric] df) issues of
                Inl e \<Rightarrow> Inl e
              | Inr issues \<Rightarrow>
                  (case source_file_checks str_of allowed_files df issues of
                     Inl e \<Rightarrow> Inl e
                   | Inr issues \<Rightarrow> Inr (duplicate_check df issues))))"

section \<open>Ingestion\<close>

text \<open>
  \<open>pd.concat(dataframes, ignore_index=True, sort=False)\<close> for frames whose column labels
  are distinct, as \<open>read_csv\<close> makes them: the columns are the union of the labels in
  first-seen order, a frame without a column contributes nulls, a column keeps its dtype
  when all frames that have it agree and is mixed otherwise, and the rows are relabelled
  from zero.
\<close>

definition concat_values :: "string \<Rightarrow> table \<Rightarrow> cell list" where
  "concat_values name df =
     (case getitem df name of [] \<Rightarrow> replicate (nrows df) Null | c # _ \<Rightarrow> cvalues c)"

definition concat_dtype :: "string \<Rightarrow> table list \<Rightarrow> dtype" where
  "concat_dtype name dfs =
     (case remdups (map dtype (concat (map (\<lambda>df. getitem df name) dfs))) of
        [d] \<Rightarrow> d | _ \<Rightarrow> Mixed)"

definition pd_concat :: "table list \<Rightarrow> table" where
  "pd_concat dfs =
     \<lparr>index = [0..<sum_list (map nrows dfs)],
      columns = map (\<lambda>name. \<lparr>cname = name, dtype = concat_dtype name dfs,
                                cvalues = concat (map (concat_values name) dfs)\<rparr>)
                    (first_occurrences (concat (map names dfs)))\<rparr>"

fun read_loop :: "filesystem \<Rightarrow> string \<Rightarrow> string list \<Rightarrow> table list \<Rightarrow> py_error + table list" where
  "read_loop fs faf5_dir [] dataframes = Inr dataframes"
| "read_loop fs faf5_dir (file_name # rest) dataframes =
     (if \<not> endswith (lower file_name) ''.csv'' then read_loop fs faf5_dir rest dataframes
      else if file_name \<in> set excluded_filenames then read_loop fs faf5_dir rest dataframes
      else (let file_path = path_join faf5_dir file_name
            in case read_csv fs file_path of
                 Inl exc \<Rightarrow> Inl (RuntimeError (''Failed to read CSV: '' @ file_path) exc)
               | Inr df \<Rightarrow>
                   read_loop fs faf5_dir rest
                     (dataframes @
                        [setitem df ''source_file'' Mixed (replicate (nrows df) (Str file_name))])))"

definition read_all_faf5_csvs :: "filesystem \<Rightarrow> string \<Rightarrow> py_error + table" where
  "read_all_faf5_csvs fs faf5_dir =
     (if \<not> isdir fs faf5_dir
      then Inl (FileNotFoundError (''FAF5 directory not found: '' @ faf5_dir))
      else (case listdir fs faf5_dir of
              None \<Rightarrow> Inl (OSError faf5_dir)
            | Some listing \<Rightarrow>
                (case read_loop fs faf5_dir (sort listing) [] of
                   Inl e \<Rightarrow> Inl e
                 | Inr dataframes \<Rightarrow>
                     if dataframes = [] then Inr empty_table else Inr (pd_concat dataframes))))"

section \<open>The pipeline\<close>

text \<open>
  \<open>main\<close> as its effect on the source directory: the exception it ends with, if any, and
  the CSV files it has written, in order. Logging, timing and the optional DuckDB export
  are left out, and a write always succeeds. A written file appears in later listings.
\<close>

datatype content = TableCsv table | ProfileCsv "profile list" | IssuesCsv "issue list"

definition to_csv :: "filesystem \<Rightarrow> string \<Rightarrow> string \<Rightarrow> filesystem" where
  "to_csv fs faf5_dir name =
     fs\<lparr>listdir := (listdir fs)(faf5_dir :=
            map_option (\<lambda>listing. if name \<in> set listing then listing else listing @ [name])
              (listdir fs faf5_dir))\<rparr>"

text \<open>The two validation reports, written at the end of the \<open>try\<close> block and once more
  after it.\<close>

definition validation_reports ::
  "(real \<Rightarrow> real) \<Rightarrow> (real \<Rightarrow> string) \<Rightarrow> filesystem \<Rightarrow> table \<Rightarrow> string
    \<Rightarrow> py_error + (filesystem \<times> (string \<times> content) list)" where
  "validation_reports sqroot str_of fs cleaned_df faf5_dir =
     (case profile_columns sqroot str_of cleaned_df of
        Inl e \<Rightarrow> Inl e
      | Inr profile_df \<Rightarrow>
          (case gather_validation_issues str_of fs cleaned_df faf5_dir of
             Inl e \<Rightarrow> Inl e
           | Inr issues_df \<Rightarrow>
               Inr (to_csv (to_csv fs faf5_dir ''FAF5_VALIDATION_COLUMNS.csv'') faf5_dir
                      ''FAF5_VALIDATION_ISSUES.csv'',
                    [(path_join faf5_dir ''FAF5_VALIDATION_COLUMNS.csv'', ProfileCsv profile_df),
                     (path_join faf5_dir ''FAF5_VALIDATION_ISSUES.csv'', IssuesCsv issues_df)])))"

definition main ::
  "(real \<Rightarrow> real) \<Rightarrow> (real \<Rightarrow> string) \<Rightarrow> (string \<Rightarrow> real option) \<Rightarrow> filesystem \<Rightarrow> string
    \<Rightarrow> py_error option \<times> (string \<times> content) list" where
  "main sqroot str_of to_num fs faf5_dir =
     (case read_all_faf5_csvs fs faf5_dir of
        Inl e \<Rightarrow> (Some e, [])
      | Inr merged_df \<Rightarrow>
          if df_empty merged_df then (None, [])
          else
            (let written = [(path_join faf5_dir ''FAF5_MERGED.csv'', TableCsv merged_df)];
                 fs = to_csv fs faf5_dir ''FAF5_MERGED.csv''
             in case clean_dataframe str_of to_num merged_df of
                  Inl e \<Rightarrow> (Some e, written)
                | Inr cleaned_df \<Rightarrow>
                    (let written = written @
                           [(path_join faf5_dir ''FAF5_MERGED_CLEANED.csv'', TableCsv cleaned_df)];
                         fs = to_csv fs faf5_dir ''FAF5_MERGED_CLEANED.csv''
                     in case validation_reports sqroot str_of fs cleaned_df faf5_dir of
                          Inl e \<Rightarrow> (Some e, written)
                        | Inr (fs, reports) \<Rightarrow>
                            (case validation_reports sqroot str_of fs cleaned_df faf5_dir of
                               Inl e \<Rightarrow> (Some e, written @ reports)
                             | Inr (fs, reports_again) \<Rightarrow>
                                 (None, written @ reports @ reports_again)))))"

chapter \<open>Verification\<close>

section \<open>Column-name normalization is idempotent\<close>








lemma isalnum_lower_char: "isalnum (lower_char c) = isalnum c"
  by (auto simp: isalnum_def lower_char_def isupper_def Let_def)




lemma strip_by_Nil: "strip_by P [] = []"
  by (simp add: strip_by_def)

















section \<open>Collisions of normalized column names\<close>

definition collision_example :: table where
  "collision_example =
     \<lparr>index = [0],
      columns = [\<lparr>cname = ''A'', dtype = Numeric, cvalues = [Num 1]\<rparr>,
                 \<lparr>cname = ''a'', dtype = Numeric, cvalues = [Num 2]\<rparr>,
                 \<lparr>cname = ''a_2'', dtype = Numeric, cvalues = [Num 3]\<rparr>]\<rparr>"

text \<open>
  Claim C3 says that the column names are pairwise distinct after
  \<open>normalize_column_names\<close>. On the three distinct names \<open>A\<close>, \<open>a\<close>,
  \<open>a_2\<close> the second column collides with the first and is renamed \<open>a_2\<close>, which
  is the normalized name of the third column: the suffixed name is not entered in
  \<open>seen\<close>, so the result carries \<open>a_2\<close> twice.
\<close>

theorem normalize_column_names_suffix_collision:
  "distinct (names collision_example)
   \<and> names (normalize_column_names collision_example) = [''a'', ''a_2'', ''a_2'']
   \<and> \<not> distinct (names (normalize_column_names collision_example))"
proof -
  have "names (normalize_column_names collision_example) = [''a'', ''a_2'', ''a_2'']"
    by code_simp
  moreover have "distinct (names collision_example)"
    by code_simp
  ultimately show ?thesis by simp
qed

section \<open>Duplicate rows\<close>

































section \<open>Numeric coercion\<close>




lemma getitem_distinct:
  "distinct (names df) \<Longrightarrow> c \<in> set (columns df) \<Longrightarrow> getitem df (cname c) = [c]"
proof -
  have "distinct (map cname cs) \<Longrightarrow> c \<in> set cs \<Longrightarrow> filter (\<lambda>d. cname d = cname c) cs = [c]" for cs
  proof (induction cs)
    case Nil
    then show ?case by simp
  next
    case (Cons d cs)
    show ?case
    proof (cases "d = c")
      case True
      with Cons.prems have "cname c \<notin> cname ` set cs" by simp
      then have "\<forall>e \<in> set cs. cname e \<noteq> cname c" by (auto simp: image_iff)
      then have "filter (\<lambda>d. cname d = cname c) cs = []" by (simp add: filter_empty_conv)
      with True show ?thesis by simp
    next
      case False
      with Cons.prems have "c \<in> set cs" "cname d \<noteq> cname c" by auto
      with Cons show ?thesis by simp
    qed
  qed
  then show "distinct (names df) \<Longrightarrow> c \<in> set (columns df) \<Longrightarrow> getitem df (cname c) = [c]"
    by (simp add: names_def getitem_def)
qed

lemma compress_map_filter: "compress (map P xs) (map f xs) = map f (filter P xs)"
  by (induction xs) (simp_all add: compress_def)








text \<open>A parser for the concrete check: it reads \<open>1\<close> and \<open>2\<close> and nothing else.\<close>

definition example_parser :: "string \<Rightarrow> real option" where
  "example_parser s = (if s = ''1'' then Some 1 else if s = ''2'' then Some 2 else None)"





section \<open>Validation issues\<close>

text \<open>
  What the first two loops add for one column: at most one \<open>missing_values\<close> issue and
  at most one \<open>negative_values\<close> issue.
\<close>

definition missing_of :: "table \<Rightarrow> column \<Rightarrow> issue list" where
  "missing_of df c =
     (if list_ex isna (cvalues c)
      then [\<lparr>issue_type = missing_values, icolumn = cname c,
             icount = length (filter isna (cvalues c)),
             pct = pct_of (length (filter isna (cvalues c))) df,
             details = Message ''Column contains missing values''\<rparr>]
      else [])"

definition negative_of :: "table \<Rightarrow> column \<Rightarrow> issue list" where
  "negative_of df c =
     (if list_ex negative (cvalues c)
      then [\<lparr>issue_type = negative_values, icolumn = cname c,
             icount = length (filter negative (cvalues c)),
             pct = pct_of (length (filter negative (cvalues c))) df,
             details = SampleRowIndices (take 10 (compress (map negative (cvalues c)) (index df)))\<rparr>]
      else [])"

lemma length_filter_pos: "(0 < length (filter P xs)) = list_ex P xs"
  by (induction xs) auto

lemma filter_id_map: "filter id (map P xs) = map P (filter P xs)"
  by (induction xs) auto

lemma missing_loop_concat:
  assumes "distinct (names df)" and "set cs \<subseteq> set (columns df)"
  shows "missing_loop df (map cname cs) issues = Inr (issues @ concat (map (missing_of df) cs))"
  using assms(2)
proof (induction cs arbitrary: issues)
  case Nil
  show ?case by simp
next
  case (Cons c cs)
  then have g: "getitem df (cname c) = [c]"
    using getitem_distinct [OF assms(1)] by simp
  from Cons have ih: "missing_loop df (map cname cs) is' = Inr (is' @ concat (map (missing_of df) cs))" for is'
    by simp
  have m: "missing_of df c =
     (if 0 < length (filter isna (cvalues c))
      then [\<lparr>issue_type = missing_values, icolumn = cname c,
             icount = length (filter isna (cvalues c)),
             pct = pct_of (length (filter isna (cvalues c))) df,
             details = Message ''Column contains missing values''\<rparr>]
      else [])"
    by (simp only: missing_of_def length_filter_pos)
  show ?case
    by (simp add: g ih m Let_def)
qed

lemma negative_loop_concat:
  assumes "distinct (names df)" and "set cs \<subseteq> set (columns df)"
  shows "negative_loop df (map cname cs) issues = Inr (issues @ concat (map (negative_of df) cs))"
  using assms(2)
proof (induction cs arbitrary: issues)
  case Nil
  show ?case by simp
next
  case (Cons c cs)
  then have g: "getitem df (cname c) = [c]"
    using getitem_distinct [OF assms(1)] by simp
  from Cons have ih: "negative_loop df (map cname cs) is' = Inr (is' @ concat (map (negative_of df) cs))" for is'
    by simp
  have m: "negative_of df c =
     (if 0 < length (filter id (map negative (cvalues c)))
      then [\<lparr>issue_type = negative_values, icolumn = cname c,
             icount = length (filter id (map negative (cvalues c))),
             pct = pct_of (length (filter id (map negative (cvalues c)))) df,
             details = SampleRowIndices (take 10 (compress (map negative (cvalues c)) (index df)))\<rparr>]
      else [])"
    by (simp only: negative_of_def length_filter_pos filter_id_map length_map)
  show ?case
    by (simp add: g ih m Let_def filter_id_map)
qed

text \<open>The set \<open>allowed_files\<close>, and the issues of the \<open>source_file\<close> block.\<close>

definition allowed_files_of :: "filesystem \<Rightarrow> string \<Rightarrow> string list" where
  "allowed_files_of fs faf5_dir =
     (case listdir fs faf5_dir of
        None \<Rightarrow> []
      | Some listing \<Rightarrow> first_occurrences (filter allowed_name listing))"

definition offending :: "(real \<Rightarrow> string) \<Rightarrow> string list \<Rightarrow> column \<Rightarrow> string list" where
  "offending str_of allowed c =
     map (astype_str str_of)
       (filter (\<lambda>v. notna v \<and> astype_str str_of v \<notin> set allowed) (cvalues c))"

definition null_part :: "table \<Rightarrow> column \<Rightarrow> issue list" where
  "null_part df c =
     (if list_ex isna (cvalues c)
      then [\<lparr>issue_type = source_file_null, icolumn = ''source_file'',
             icount = length (filter isna (cvalues c)),
             pct = pct_of (length (filter isna (cvalues c))) df,
             details = Message (''Null values present in 'source_file'' @ [CHR 0x27])\<rparr>]
      else [])"

definition empty_part :: "(real \<Rightarrow> string) \<Rightarrow> table \<Rightarrow> column \<Rightarrow> issue list" where
  "empty_part str_of df c =
     (if list_ex (\<lambda>v. notna v \<and> strip (astype_str str_of v) = []) (cvalues c)
      then [\<lparr>issue_type = source_file_empty, icolumn = ''source_file'',
             icount = length (filter (\<lambda>v. notna v \<and> strip (astype_str str_of v) = []) (cvalues c)),
             pct = pct_of (length (filter (\<lambda>v. notna v \<and> strip (astype_str str_of v) = []) (cvalues c))) df,
             details = Message (''Empty string values present in 'source_file'' @ [CHR 0x27])\<rparr>]
      else [])"

definition invalid_part :: "(real \<Rightarrow> string) \<Rightarrow> string list \<Rightarrow> table \<Rightarrow> column \<Rightarrow> issue list" where
  "invalid_part str_of allowed df c =
     (if allowed \<noteq> [] \<and> offending str_of allowed c \<noteq> []
      then [\<lparr>issue_type = source_file_invalid, icolumn = ''source_file'',
             icount = length (offending str_of allowed c),
             pct = pct_of (length (offending str_of allowed c)) df,
             details = ValuesNotInDirectory (take 10 (first_occurrences (offending str_of allowed c)))\<rparr>]
      else [])"

definition missing_part :: "table \<Rightarrow> issue list" where
  "missing_part df =
     [\<lparr>issue_type = source_file_missing, icolumn = ''source_file'', icount = nrows df,
       pct = (if nrows df \<noteq> 0 then 1 else 0),
       details = Message ''Column 'source_file' not found''\<rparr>]"

lemma source_file_checks_missing:
  "''source_file'' \<notin> set (names df) \<Longrightarrow>
     source_file_checks str_of allowed df issues = Inr (issues @ missing_part df)"
  by (simp add: source_file_checks_def missing_part_def)

lemma sf_series_facts:
  "isna (if isna v then Null else Str (astype_str str_of v)) = isna v"
  "notna (if isna v then Null else Str (astype_str str_of v)) = notna v"
  "notna v \<Longrightarrow> astype_str str_of (if isna v then Null else Str (astype_str str_of v)) = astype_str str_of v"
  by (simp_all add: isna_def notna_def)

lemma source_file_checks_present:
  assumes "distinct (names df)" and "c \<in> set (columns df)" and "cname c = ''source_file''"
  shows "source_file_checks str_of allowed df issues
       = Inr (issues @ null_part df c @ empty_part str_of df c @ invalid_part str_of allowed df c)"
proof -
  let ?f = "\<lambda>v. if isna v then Null else Str (astype_str str_of v)"
  let ?sf = "map ?f (cvalues c)"
  let ?E = "\<lambda>v. notna v \<and> strip (astype_str str_of v) = []"
  let ?Q = "\<lambda>v. notna v \<and> astype_str str_of v \<notin> set allowed"
  have g: "getitem df ''source_file'' = [c]"
    using getitem_distinct [OF assms(1,2)] assms(3) by simp
  have n: "''source_file'' \<in> set (names df)"
    using assms(2,3) by (force simp: names_def)
  have 1: "length (filter isna ?sf) = length (filter isna (cvalues c))"
    by (simp add: filter_map comp_def sf_series_facts(1))
  have "filter ?E ?sf = map ?f (filter ?E (cvalues c))"
    unfolding filter_map comp_def
    by (rule arg_cong [where f = "map ?f"], rule filter_cong) (auto simp: notna_def isna_def)
  then have 2: "length (filter ?E ?sf) = length (filter ?E (cvalues c))"
    by simp
  have m: "map ?Q ?sf = map ?Q (cvalues c)"
    by (auto simp: notna_def isna_def)
  have "map (astype_str str_of) (compress (map ?Q (cvalues c)) ?sf)
      = map (astype_str str_of) (map ?f (filter ?Q (cvalues c)))"
    by (simp only: compress_map_filter)
  also have "\<dots> = offending str_of allowed c"
    unfolding offending_def map_map comp_def
    by (rule map_cong) (auto simp: notna_def isna_def)
  finally have 3: "map (astype_str str_of) (compress (map ?Q ?sf) ?sf) = offending str_of allowed c"
    unfolding m .
  have 4: "length (filter id (map ?Q ?sf)) = length (offending str_of allowed c)"
    unfolding m by (simp add: offending_def filter_id_map)
  have np: "null_part df c =
     (if 0 < length (filter isna (cvalues c))
      then [\<lparr>issue_type = source_file_null, icolumn = ''source_file'',
             icount = length (filter isna (cvalues c)),
             pct = pct_of (length (filter isna (cvalues c))) df,
             details = Message (''Null values present in 'source_file'' @ [CHR 0x27])\<rparr>]
      else [])"
    by (simp only: null_part_def length_filter_pos)
  have ep: "empty_part str_of df c =
     (if 0 < length (filter ?E (cvalues c))
      then [\<lparr>issue_type = source_file_empty, icolumn = ''source_file'',
             icount = length (filter ?E (cvalues c)),
             pct = pct_of (length (filter ?E (cvalues c))) df,
             details = Message (''Empty string values present in 'source_file'' @ [CHR 0x27])\<rparr>]
      else [])"
    by (simp only: empty_part_def length_filter_pos)
  have ip: "invalid_part str_of allowed df c =
     (if allowed \<noteq> [] \<and> 0 < length (offending str_of allowed c)
      then [\<lparr>issue_type = source_file_invalid, icolumn = ''source_file'',
             icount = length (offending str_of allowed c),
             pct = pct_of (length (offending str_of allowed c)) df,
             details = ValuesNotInDirectory (take 10 (first_occurrences (offending str_of allowed c)))\<rparr>]
      else [])"
    by (simp only: invalid_part_def length_greater_0_conv)
  show ?thesis
    unfolding source_file_checks_def Let_def g list.case 1 2 3 4 np ep ip
    using n by simp
qed

definition source_file_part :: "(real \<Rightarrow> string) \<Rightarrow> string list \<Rightarrow> table \<Rightarrow> issue list" where
  "source_file_part str_of allowed df =
     (case getitem df ''source_file'' of
        [] \<Rightarrow> missing_part df
      | [c] \<Rightarrow> null_part df c @ empty_part str_of df c @ invalid_part str_of allowed df c
      | _ \<Rightarrow> [])"

lemma getitem_Nil_iff: "(getitem df name = []) = (name \<notin> set (names df))"
  by (auto simp: getitem_def names_def filter_empty_conv)

lemma source_file_checks_part:
  assumes "distinct (names df)"
  shows "source_file_checks str_of allowed df issues = Inr (issues @ source_file_part str_of allowed df)"
proof (cases "''source_file'' \<in> set (names df)")
  case False
  then show ?thesis
    by (simp add: source_file_checks_missing source_file_part_def getitem_Nil_iff [symmetric])
next
  case True
  then obtain c where c: "c \<in> set (columns df)" "cname c = ''source_file''"
    by (auto simp: names_def)
  then have "getitem df ''source_file'' = [c]"
    using getitem_distinct [OF assms, of c] by simp
  then show ?thesis
    using source_file_checks_present [OF assms c] by (simp add: source_file_part_def)
qed

lemma duplicate_check_append: "duplicate_check df issues = issues @ duplicate_check df []"
  by (simp add: duplicate_check_def Let_def)

lemma gather_validation_issues_parts:
  assumes "distinct (names df)"
  shows "gather_validation_issues str_of fs df faf5_dir =
     Inr (concat (map (missing_of df) (columns df))
          @ concat (map (negative_of df) (filter (\<lambda>c. dtype c = Numeric) (columns df)))
          @ source_file_part str_of (allowed_files_of fs faf5_dir) df
          @ duplicate_check df [])"
proof -
  have 1: "missing_loop df (names df) [] = Inr (concat (map (missing_of df) (columns df)))"
    using missing_loop_concat [OF assms, of "columns df" "[]"] by (simp add: names_def)
  have 2: "negative_loop df (select_dtypes [Numeric] df) issues
      = Inr (issues @ concat (map (negative_of df) (filter (\<lambda>c. dtype c = Numeric) (columns df))))"
    for issues
    using negative_loop_concat [OF assms, of "filter (\<lambda>c. dtype c = Numeric) (columns df)" issues]
    by (simp add: select_dtypes_def)
  show ?thesis
    unfolding gather_validation_issues_def Let_def allowed_files_of_def [symmetric]
    by (simp add: 1 2 source_file_checks_part [OF assms] duplicate_check_append [of df "_ @ _"])
qed

lemma compress_positions:
  "compress keep [0..<length keep] = filter (\<lambda>i. keep ! i) [0..<length keep]"
proof (induction keep rule: rev_induct)
  case Nil
  show ?case by (simp add: compress_def)
next
  case (snoc k ks)
  have "compress (ks @ [k]) ([0..<length ks] @ [length ks])
      = compress ks [0..<length ks] @ compress [k] [length ks]"
    by (simp add: compress_def)
  moreover have "filter (\<lambda>i. (ks @ [k]) ! i) [0..<length ks] = filter (\<lambda>i. ks ! i) [0..<length ks]"
    by (rule filter_cong) (auto simp: nth_append)
  ultimately show ?case
    using snoc by (simp add: compress_def)
qed

lemma sample_positions:
  assumes "index df = [0..<nrows df]" and "length (cvalues c) = nrows df"
  shows "compress (map negative (cvalues c)) (index df)
       = filter (\<lambda>i. negative (cvalues c ! i)) [0..<nrows df]"
proof -
  have "compress (map negative (cvalues c)) [0..<length (map negative (cvalues c))]
      = filter (\<lambda>i. map negative (cvalues c) ! i) [0..<length (map negative (cvalues c))]"
    by (rule compress_positions)
  moreover have "filter (\<lambda>i. map negative (cvalues c) ! i) [0..<length (cvalues c)]
      = filter (\<lambda>i. negative (cvalues c ! i)) [0..<length (cvalues c)]"
    by (rule filter_cong) auto
  ultimately show ?thesis
    using assms by simp
qed

lemma missing_part_names:
  "map (\<lambda>i. (issue_type i, icolumn i)) (concat (map (missing_of df) cs))
     = map (\<lambda>c. (missing_values, cname c)) (filter (\<lambda>c. list_ex isna (cvalues c)) cs)"
  by (induction cs) (simp_all add: missing_of_def)

lemma negative_part_names:
  "map (\<lambda>i. (issue_type i, icolumn i, details i)) (concat (map (negative_of df) cs))
     = map (\<lambda>c. (negative_values, cname c,
                  SampleRowIndices (take 10 (compress (map negative (cvalues c)) (index df)))))
         (filter (\<lambda>c. list_ex negative (cvalues c)) cs)"
  by (induction cs) (simp_all add: negative_of_def)

lemma source_file_part_kinds:
  "i \<in> set (source_file_part str_of allowed df) \<Longrightarrow>
     issue_type i \<in> {source_file_missing, source_file_null, source_file_empty, source_file_invalid}
     \<and> icolumn i = ''source_file''"
  by (auto simp: source_file_part_def missing_part_def null_part_def empty_part_def invalid_part_def
      split: list.splits if_splits)

lemma length_source_file_part: "length (source_file_part str_of allowed df) \<le> 3"
  by (auto simp: source_file_part_def missing_part_def null_part_def empty_part_def invalid_part_def
      split: list.splits)

lemma duplicate_check_kind:
  "length (duplicate_check df []) \<le> 1
   \<and> (\<forall>i \<in> set (duplicate_check df []). issue_type i = duplicate_rows \<and> icolumn i = []
         \<and> icount i = length (filter id (duplicated df)))"
  by (simp add: duplicate_check_def Let_def)

text \<open>The table of the repository's validation test, and a directory listing.\<close>

definition validation_example :: table where
  "validation_example =
     \<lparr>index = [0, 1, 2],
      columns = [\<lparr>cname = ''source_file'', dtype = Mixed,
                   cvalues = [Str ''a.csv'', Null, Str ''bad.csv'']\<rparr>,
                 \<lparr>cname = ''qty'', dtype = Numeric, cvalues = [Num 1, Num (- 1), Num 2]\<rparr>]\<rparr>"

definition example_fs :: filesystem where
  "example_fs =
     \<lparr>isdir = (\<lambda>d. d = ''data''),
      listdir = (\<lambda>d. if d = ''data'' then Some [''a.csv'', ''notes.txt'', ''FAF5_MERGED.csv''] else None),
      read_csv = (\<lambda>p. Inl ''not a table'')\<rparr>"

definition no_text :: "real \<Rightarrow> string" where
  "no_text x = []"

text \<open>
  Claim C7, amended. For every table with pairwise distinct column names the issues come
  in the fixed order: one \<open>missing_values\<close> issue per column with at least one null, in
  column order; then one \<open>negative_values\<close> issue per numeric column with at least one
  negative value, in column order, whose details hold up to 10 row labels (values of
  \<open>df.index\<close>) of the negative rows; then at most three \<open>source_file\<close> issues; then
  at most one row-level \<open>duplicate_rows\<close> issue. When the table carries the default
  labels 0, 1, ..., n-1 the labels are the zero-based positions of the negative rows.
\<close>

theorem gather_validation_issues_order:
  assumes "distinct (names df)"
  shows "\<exists>missing negatives source dup.
      gather_validation_issues str_of fs df faf5_dir = Inr (missing @ negatives @ source @ dup)
    \<and> map (\<lambda>i. (issue_type i, icolumn i)) missing
        = map (\<lambda>c. (missing_values, cname c)) (filter (\<lambda>c. list_ex isna (cvalues c)) (columns df))
    \<and> map (\<lambda>i. (issue_type i, icolumn i, details i)) negatives
        = map (\<lambda>c. (negative_values, cname c,
                     SampleRowIndices (take 10 (compress (map negative (cvalues c)) (index df)))))
            (filter (\<lambda>c. dtype c = Numeric \<and> list_ex negative (cvalues c)) (columns df))
    \<and> (\<forall>i \<in> set source.
          issue_type i \<in> {source_file_missing, source_file_null, source_file_empty, source_file_invalid}
          \<and> icolumn i = ''source_file'')
    \<and> length source \<le> 3
    \<and> length dup \<le> 1
    \<and> (\<forall>i \<in> set dup. issue_type i = duplicate_rows \<and> icolumn i = [])
    \<and> (index df = [0..<nrows df] \<longrightarrow>
         (\<forall>c \<in> set (columns df). length (cvalues c) = nrows df \<longrightarrow>
            compress (map negative (cvalues c)) (index df)
              = filter (\<lambda>i. negative (cvalues c ! i)) [0..<nrows df]))"
proof -
  let ?m = "concat (map (missing_of df) (columns df))"
  let ?n = "concat (map (negative_of df) (filter (\<lambda>c. dtype c = Numeric) (columns df)))"
  let ?s = "source_file_part str_of (allowed_files_of fs faf5_dir) df"
  let ?d = "duplicate_check df []"
  have 1: "gather_validation_issues str_of fs df faf5_dir = Inr (?m @ ?n @ ?s @ ?d)"
    using assms by (rule gather_validation_issues_parts)
  have 2: "map (\<lambda>i. (issue_type i, icolumn i)) ?m
        = map (\<lambda>c. (missing_values, cname c)) (filter (\<lambda>c. list_ex isna (cvalues c)) (columns df))"
    by (rule missing_part_names)
  have 3: "map (\<lambda>i. (issue_type i, icolumn i, details i)) ?n
        = map (\<lambda>c. (negative_values, cname c,
                     SampleRowIndices (take 10 (compress (map negative (cvalues c)) (index df)))))
            (filter (\<lambda>c. dtype c = Numeric \<and> list_ex negative (cvalues c)) (columns df))"
    unfolding negative_part_names by (simp add: conj_commute)
  have 4: "\<forall>i \<in> set ?s.
          issue_type i \<in> {source_file_missing, source_file_null, source_file_empty, source_file_invalid}
          \<and> icolumn i = ''source_file''"
    using source_file_part_kinds by blast
  have 5: "length ?s \<le> 3"
    by (rule length_source_file_part)
  have 6: "length ?d \<le> 1" "\<forall>i \<in> set ?d. issue_type i = duplicate_rows \<and> icolumn i = []"
    using duplicate_check_kind [of df] by simp_all
  have 7: "index df = [0..<nrows df] \<longrightarrow>
         (\<forall>c \<in> set (columns df). length (cvalues c) = nrows df \<longrightarrow>
            compress (map negative (cvalues c)) (index df)
              = filter (\<lambda>i. negative (cvalues c ! i)) [0..<nrows df])"
    using sample_positions by blast
  from 1 2 3 4 5 6 7 show ?thesis by blast
qed

theorem gather_validation_issues_order_witness:
  "distinct (names validation_example)
   \<and> index validation_example = [0..<nrows validation_example]
   \<and> (\<exists>missing negatives source dup.
        gather_validation_issues no_text example_fs validation_example ''data''
          = Inr (missing @ negatives @ source @ dup)
        \<and> map (\<lambda>i. (issue_type i, icolumn i)) missing = [(missing_values, ''source_file'')]
        \<and> map (\<lambda>i. (issue_type i, icolumn i, details i)) negatives
            = [(negative_values, ''qty'', SampleRowIndices [1])]
        \<and> length source \<le> 3 \<and> length dup \<le> 1)"
proof -
  have h: "distinct (names validation_example)"
    by (simp add: names_def validation_example_def)
  have i: "index validation_example = [0..<nrows validation_example]"
    by (simp add: nrows_def validation_example_def upt_rec)
  have a: "map (\<lambda>c. (missing_values, cname c))
             (filter (\<lambda>c. list_ex isna (cvalues c)) (columns validation_example))
         = [(missing_values, ''source_file'')]"
    by (simp add: validation_example_def isna_def)
  have b: "map (\<lambda>c. (negative_values, cname c,
                     SampleRowIndices (take 10 (compress (map negative (cvalues c)) (index validation_example)))))
            (filter (\<lambda>c. dtype c = Numeric \<and> list_ex negative (cvalues c)) (columns validation_example))
         = [(negative_values, ''qty'', SampleRowIndices [1])]"
    by (simp add: validation_example_def compress_def)
  from gather_validation_issues_order [OF h, of no_text example_fs "''data''"]
  obtain missing negatives source dup where
    "gather_validation_issues no_text example_fs validation_example ''data''
       = Inr (missing @ negatives @ source @ dup)"
    "map (\<lambda>i. (issue_type i, icolumn i)) missing = [(missing_values, ''source_file'')]"
    "map (\<lambda>i. (issue_type i, icolumn i, details i)) negatives
       = [(negative_values, ''qty'', SampleRowIndices [1])]"
    "length source \<le> 3" "length dup \<le> 1"
    unfolding a b by (elim exE conjE)
  with h i show ?thesis
    by (intro conjI exI)
qed

text \<open>
  Claim C7 as stated says that the details hold zero-based row indices. After
  \<open>remove_duplicate_rows\<close> a table keeps the labels of the rows that remain: the
  three-row table below loses its second row, its negative value is then in the row at
  position 1 of a two-row table, and the issue reports the label 2.
\<close>

definition neg_example :: table where
  "neg_example =
     \<lparr>index = [0, 1, 2],
      columns = [\<lparr>cname = ''qty'', dtype = Numeric, cvalues = [Num 1, Num 1, Num (- 5)]\<rparr>]\<rparr>"

lemma round6_half: "round6 (1 / 2) = 1 / 2"
  by (simp add: round6_def)

theorem gather_validation_issues_labels_counterexample:
  "remove_duplicate_rows neg_example
     = \<lparr>index = [0, 2],
        columns = [\<lparr>cname = ''qty'', dtype = Numeric, cvalues = [Num 1, Num (- 5)]\<rparr>]\<rparr>
   \<and> gather_validation_issues no_text example_fs (remove_duplicate_rows neg_example) ''data''
     = Inr [\<lparr>issue_type = negative_values, icolumn = ''qty'', icount = 1, pct = 1 / 2,
             details = SampleRowIndices [2]\<rparr>,
            \<lparr>issue_type = source_file_missing, icolumn = ''source_file'', icount = 2, pct = 1,
             details = Message ''Column 'source_file' not found''\<rparr>]
   \<and> nrows (remove_duplicate_rows neg_example) = 2"
proof -
  have r: "remove_duplicate_rows neg_example
     = \<lparr>index = [0, 2],
        columns = [\<lparr>cname = ''qty'', dtype = Numeric, cvalues = [Num 1, Num (- 5)]\<rparr>]\<rparr>"
    by (simp add: remove_duplicate_rows_def drop_duplicates_def df_empty_def neg_example_def
        duplicated_def nrows_def row_def select_rows_def compress_def upt_rec)
  show ?thesis
    unfolding r
    by (simp add: gather_validation_issues_def select_dtypes_def names_def getitem_def
        compress_def pct_of_def nrows_def round6_half source_file_checks_def duplicate_check_def
        duplicated_def df_empty_def row_def example_fs_def isna_def upt_rec)
qed

section \<open>The source_file check\<close>

lemma read_loop_allowed:
  "read_loop fs faf5_dir listing dataframes
     = read_loop fs faf5_dir (filter allowed_name listing) dataframes"
proof (induction listing arbitrary: dataframes)
  case Nil
  show ?case by simp
next
  case (Cons file_name rest)
  show ?case
  proof (cases "allowed_name file_name")
    case True
    then show ?thesis
      using Cons by (auto simp: allowed_name_def Let_def split: sum.splits)
  next
    case False
    then show ?thesis
      using Cons by (auto simp: allowed_name_def)
  qed
qed










text \<open>
  Claim C2 as stated promises the issue whenever the directory is readable. A readable
  directory without any eligible CSV file name gives the empty set \<open>allowed_files\<close>,
  which the guard \<open>if allowed_files:\<close> treats like an unreadable directory: the value
  \<open>a.csv\<close> is not an eligible name, and no issue is emitted.
\<close>

definition csvless_fs :: filesystem where
  "csvless_fs =
     \<lparr>isdir = (\<lambda>d. True), listdir = (\<lambda>d. Some [''notes.txt'']),
      read_csv = (\<lambda>p. Inl ''not a table'')\<rparr>"


lemma notes_not_allowed: "allowed_name ''notes.txt'' = False"
  by code_simp


section \<open>Column profiles\<close>












section \<open>Ingestion errors\<close>

text \<open>What the ingestion loop appends for one file that parses.\<close>

definition read_and_tag :: "filesystem \<Rightarrow> string \<Rightarrow> string \<Rightarrow> table" where
  "read_and_tag fs faf5_dir file_name =
     (case read_csv fs (path_join faf5_dir file_name) of
        Inr df \<Rightarrow> setitem df ''source_file'' Mixed (replicate (nrows df) (Str file_name))
      | Inl exc \<Rightarrow> empty_table)"

definition unreadable :: "filesystem \<Rightarrow> string \<Rightarrow> string \<Rightarrow> bool" where
  "unreadable fs faf5_dir file_name = isl (read_csv fs (path_join faf5_dir file_name))"

lemma read_loop_eligible:
  assumes "\<forall>n \<in> set es. allowed_name n"
  shows "read_loop fs faf5_dir es dataframes =
     (case find (unreadable fs faf5_dir) es of
        None \<Rightarrow> Inr (dataframes @ map (read_and_tag fs faf5_dir) es)
      | Some bad \<Rightarrow>
          Inl (RuntimeError (''Failed to read CSV: '' @ path_join faf5_dir bad)
                 (projl (read_csv fs (path_join faf5_dir bad)))))"
  using assms
proof (induction es arbitrary: dataframes)
  case Nil
  show ?case by simp
next
  case (Cons n es)
  then have a: "endswith (lower n) ''.csv''" "n \<notin> set excluded_filenames"
    by (simp_all add: allowed_name_def)
  show ?case
  proof (cases "read_csv fs (path_join faf5_dir n)")
    case (Inl exc)
    then show ?thesis
      using a by (simp add: unreadable_def Let_def)
  next
    case (Inr df)
    then have "read_and_tag fs faf5_dir n
        = setitem df ''source_file'' Mixed (replicate (nrows df) (Str n))"
      by (simp add: read_and_tag_def)
    with Inr Cons show ?thesis
      using a by (simp add: unreadable_def Let_def split: option.splits)
  qed
qed

lemma read_all_faf5_csvs_cases:
  "read_all_faf5_csvs fs faf5_dir =
     (if \<not> isdir fs faf5_dir
      then Inl (FileNotFoundError (''FAF5 directory not found: '' @ faf5_dir))
      else case listdir fs faf5_dir of
             None \<Rightarrow> Inl (OSError faf5_dir)
           | Some listing \<Rightarrow>
               (case find (unreadable fs faf5_dir) (filter allowed_name (sort listing)) of
                  Some bad \<Rightarrow>
                    Inl (RuntimeError (''Failed to read CSV: '' @ path_join faf5_dir bad)
                           (projl (read_csv fs (path_join faf5_dir bad))))
                | None \<Rightarrow>
                    if filter allowed_name (sort listing) = [] then Inr empty_table
                    else Inr (pd_concat (map (read_and_tag fs faf5_dir)
                                (filter allowed_name (sort listing))))))"
proof -
  have "read_loop fs faf5_dir (sort listing) [] =
     (case find (unreadable fs faf5_dir) (filter allowed_name (sort listing)) of
        None \<Rightarrow> Inr (map (read_and_tag fs faf5_dir) (filter allowed_name (sort listing)))
      | Some bad \<Rightarrow>
          Inl (RuntimeError (''Failed to read CSV: '' @ path_join faf5_dir bad)
                 (projl (read_csv fs (path_join faf5_dir bad)))))" for listing
    using read_loop_eligible [of "filter allowed_name (sort listing)" fs faf5_dir "[]"]
    by (simp add: read_loop_allowed [of fs faf5_dir "sort listing"] split: option.splits)
  then show ?thesis
    by (simp add: read_all_faf5_csvs_def split: option.splits)
qed

lemma find_Some_member: "find P xs = Some x \<Longrightarrow> x \<in> set xs \<and> P x"
  by (induction xs) (auto split: if_splits)

lemma filter_sort_Nil: "(filter P (sort xs) = []) = (filter P xs = [])"
  by (simp add: filter_empty_conv)

lemma find_sort_None: "(find P (filter Q (sort xs)) = None) = (\<not> (\<exists>x \<in> set xs. Q x \<and> P x))"
  by (auto simp: find_None_iff)

text \<open>
  Claim C9. \<open>read_all_faf5_csvs\<close> fails with \<open>FileNotFoundError\<close> (the
  \<open>DirectoryNotFound\<close> of the specification) exactly when the path is not an existing
  directory. When the directory can be listed and some eligible CSV file does not parse, it
  fails with \<open>RuntimeError\<close> (the \<open>CsvParseError\<close>) for the first such file in sorted
  order, carrying its path and the exception of \<open>read_csv\<close> as the cause, so no merged
  table is returned; and it fails with \<open>RuntimeError\<close> in no other case.
\<close>

theorem read_all_faf5_csvs_errors:
  "((\<exists>msg. read_all_faf5_csvs fs faf5_dir = Inl (FileNotFoundError msg)) \<longleftrightarrow> \<not> isdir fs faf5_dir)
   \<and> (isdir fs faf5_dir \<and> listdir fs faf5_dir = Some listing
        \<and> (\<exists>name \<in> set listing. allowed_name name \<and> unreadable fs faf5_dir name)
      \<longrightarrow> (\<exists>bad. bad \<in> set listing \<and> allowed_name bad \<and> unreadable fs faf5_dir bad
            \<and> find (unreadable fs faf5_dir) (filter allowed_name (sort listing)) = Some bad
            \<and> read_all_faf5_csvs fs faf5_dir =
                Inl (RuntimeError (''Failed to read CSV: '' @ path_join faf5_dir bad)
                       (projl (read_csv fs (path_join faf5_dir bad))))))
   \<and> ((\<exists>msg cause. read_all_faf5_csvs fs faf5_dir = Inl (RuntimeError msg cause))
        \<longrightarrow> isdir fs faf5_dir
            \<and> (\<exists>listing. listdir fs faf5_dir = Some listing
                 \<and> (\<exists>name \<in> set listing. allowed_name name \<and> unreadable fs faf5_dir name)))"
proof -
  have a: "(\<exists>msg. read_all_faf5_csvs fs faf5_dir = Inl (FileNotFoundError msg)) \<longleftrightarrow> \<not> isdir fs faf5_dir"
    unfolding read_all_faf5_csvs_cases by (auto split: option.splits)
  have b: "\<exists>bad. bad \<in> set listing \<and> allowed_name bad \<and> unreadable fs faf5_dir bad
            \<and> find (unreadable fs faf5_dir) (filter allowed_name (sort listing)) = Some bad
            \<and> read_all_faf5_csvs fs faf5_dir =
                Inl (RuntimeError (''Failed to read CSV: '' @ path_join faf5_dir bad)
                       (projl (read_csv fs (path_join faf5_dir bad))))"
    if d: "isdir fs faf5_dir" and l: "listdir fs faf5_dir = Some listing"
      and e: "\<exists>name \<in> set listing. allowed_name name \<and> unreadable fs faf5_dir name"
  proof -
    from e have "find (unreadable fs faf5_dir) (filter allowed_name (sort listing)) \<noteq> None"
      unfolding find_sort_None by blast
    then obtain bad where f: "find (unreadable fs faf5_dir) (filter allowed_name (sort listing)) = Some bad"
      by blast
    then have "bad \<in> set (filter allowed_name (sort listing))" "unreadable fs faf5_dir bad"
      using find_Some_member by fastforce+
    then have "bad \<in> set listing" "allowed_name bad" "unreadable fs faf5_dir bad"
      by simp_all
    moreover have "read_all_faf5_csvs fs faf5_dir =
                Inl (RuntimeError (''Failed to read CSV: '' @ path_join faf5_dir bad)
                       (projl (read_csv fs (path_join faf5_dir bad))))"
      unfolding read_all_faf5_csvs_cases using d l f by simp
    ultimately show ?thesis using f by blast
  qed
  have c: "isdir fs faf5_dir
            \<and> (\<exists>listing. listdir fs faf5_dir = Some listing
                 \<and> (\<exists>name \<in> set listing. allowed_name name \<and> unreadable fs faf5_dir name))"
    if "\<exists>msg cause. read_all_faf5_csvs fs faf5_dir = Inl (RuntimeError msg cause)"
  proof -
    from that have d: "isdir fs faf5_dir"
      unfolding read_all_faf5_csvs_cases by (auto split: if_splits)
    from that d obtain listing where l: "listdir fs faf5_dir = Some listing"
      unfolding read_all_faf5_csvs_cases by (auto split: option.splits)
    from that d l have "find (unreadable fs faf5_dir) (filter allowed_name (sort listing)) \<noteq> None"
      unfolding read_all_faf5_csvs_cases by (auto split: option.splits if_splits)
    then have "\<exists>name \<in> set listing. allowed_name name \<and> unreadable fs faf5_dir name"
      unfolding find_sort_None by blast
    with d l show ?thesis by blast
  qed
  from a b c show ?thesis by blast
qed

text \<open>A directory with one file that parses and one that does not.\<close>

definition broken_fs :: filesystem where
  "broken_fs =
     \<lparr>isdir = (\<lambda>d. d = ''data''),
      listdir = (\<lambda>d. if d = ''data'' then Some [''b.csv'', ''a.csv''] else None),
      read_csv = (\<lambda>p. if p = ''data/a.csv''
                         then Inr \<lparr>index = [0], columns = [\<lparr>cname = ''qty'', dtype = Numeric, cvalues = [Num 5]\<rparr>]\<rparr>
                         else Inl ''parse error'')\<rparr>"

theorem read_all_faf5_csvs_errors_witness:
  "\<not> isdir broken_fs ''nowhere''
   \<and> (\<exists>msg. read_all_faf5_csvs broken_fs ''nowhere'' = Inl (FileNotFoundError msg))
   \<and> isdir broken_fs ''data'' \<and> listdir broken_fs ''data'' = Some [''b.csv'', ''a.csv'']
   \<and> allowed_name ''b.csv'' \<and> unreadable broken_fs ''data'' ''b.csv''
   \<and> read_all_faf5_csvs broken_fs ''data''
       = Inl (RuntimeError ''Failed to read CSV: data/b.csv'' ''parse error'')"
proof -
  have n: "\<not> isdir broken_fs ''nowhere''"
    by (simp add: broken_fs_def)
  have d: "isdir broken_fs ''data''" "listdir broken_fs ''data'' = Some [''b.csv'', ''a.csv'']"
    by (simp_all add: broken_fs_def)
  have b: "allowed_name ''b.csv''" "unreadable broken_fs ''data'' ''b.csv''"
    by code_simp+
  have f: "find (unreadable broken_fs ''data'') (filter allowed_name (sort [''b.csv'', ''a.csv'']))
         = Some ''b.csv''"
    by code_simp
  have p: "''Failed to read CSV: '' @ path_join ''data'' ''b.csv'' = ''Failed to read CSV: data/b.csv''"
    "projl (read_csv broken_fs (path_join ''data'' ''b.csv'')) = ''parse error''"
    by code_simp+
  have e: "\<exists>name \<in> set [''b.csv'', ''a.csv'']. allowed_name name \<and> unreadable broken_fs ''data'' name"
    using b by simp
  have 1: "\<exists>msg. read_all_faf5_csvs broken_fs ''nowhere'' = Inl (FileNotFoundError msg)"
    by (rule read_all_faf5_csvs_errors [THEN conjunct1, THEN iffD2, OF n])
  from read_all_faf5_csvs_errors [of broken_fs "''data''" "[''b.csv'', ''a.csv'']"] d e
  obtain bad where "find (unreadable broken_fs ''data'') (filter allowed_name (sort [''b.csv'', ''a.csv''])) = Some bad"
    and r: "read_all_faf5_csvs broken_fs ''data'' =
                Inl (RuntimeError (''Failed to read CSV: '' @ path_join ''data'' bad)
                       (projl (read_csv broken_fs (path_join ''data'' bad))))"
    by blast
  then have "bad = ''b.csv''"
    unfolding f by simp
  with r p have 2: "read_all_faf5_csvs broken_fs ''data''
       = Inl (RuntimeError ''Failed to read CSV: data/b.csv'' ''parse error'')"
    by simp
  from n 1 d b 2 show ?thesis
    by (intro conjI)
qed

section \<open>Eligible file names\<close>

text \<open>A directory that holds a merged output and a file named like it in lower case.\<close>

definition case_fs :: filesystem where
  "case_fs =
     \<lparr>isdir = (\<lambda>d. d = ''data''),
      listdir = (\<lambda>d. if d = ''data'' then Some [''faf5_merged.csv'', ''FAF5_MERGED.csv''] else None),
      read_csv = (\<lambda>p. if p = ''data/faf5_merged.csv''
                         then Inr \<lparr>index = [0], columns = [\<lparr>cname = ''qty'', dtype = Numeric, cvalues = [Num 5]\<rparr>]\<rparr>
                         else Inl ''parse error'')\<rparr>"

lemma excluded_lower_csv: "\<forall>e \<in> set (map lower excluded_filenames). endswith e ''.csv''"
  by code_simp

text \<open>
  Claim C10. The extension test is made on the lower-cased name, the exclusion on the name
  as it is: a name that is none of the four reserved names but equals one of them up to
  letter case is eligible. So \<open>faf5_merged.csv\<close> is eligible while
  \<open>FAF5_MERGED.csv\<close> is not, \<open>DATA.CSV\<close> is eligible, and in a directory holding
  \<open>faf5_merged.csv\<close> that file is read and merged, its rows tagged with its name.
\<close>

theorem exclusion_is_case_sensitive:
  "(name \<notin> set excluded_filenames \<and> lower name \<in> set (map lower excluded_filenames)
      \<longrightarrow> allowed_name name)
   \<and> lower ''faf5_merged.csv'' = lower ''FAF5_MERGED.csv''
   \<and> \<not> allowed_name ''FAF5_MERGED.csv''
   \<and> allowed_name ''faf5_merged.csv''
   \<and> allowed_name ''DATA.CSV''
   \<and> read_all_faf5_csvs case_fs ''data''
       = Inr \<lparr>index = [0],
              columns = [\<lparr>cname = ''qty'', dtype = Numeric, cvalues = [Num 5]\<rparr>,
                         \<lparr>cname = ''source_file'', dtype = Mixed,
                          cvalues = [Str ''faf5_merged.csv'']\<rparr>]\<rparr>"
proof -
  have "allowed_name name"
    if "name \<notin> set excluded_filenames" "lower name \<in> set (map lower excluded_filenames)"
    using that excluded_lower_csv unfolding allowed_name_def by blast
  moreover have "lower ''faf5_merged.csv'' = lower ''FAF5_MERGED.csv''"
    by code_simp
  moreover have "\<not> allowed_name ''FAF5_MERGED.csv''"
    by code_simp
  moreover have "allowed_name ''faf5_merged.csv''"
    by code_simp
  moreover have "allowed_name ''DATA.CSV''"
    by code_simp
  moreover have "read_all_faf5_csvs case_fs ''data''
       = Inr \<lparr>index = [0],
              columns = [\<lparr>cname = ''qty'', dtype = Numeric, cvalues = [Num 5]\<rparr>,
                         \<lparr>cname = ''source_file'', dtype = Mixed,
                          cvalues = [Str ''faf5_merged.csv'']\<rparr>]\<rparr>"
    by code_simp
  ultimately show ?thesis by blast
qed

theorem exclusion_is_case_sensitive_witness:
  "''faf5_merged.csv'' \<notin> set excluded_filenames
   \<and> lower ''faf5_merged.csv'' \<in> set (map lower excluded_filenames)
   \<and> allowed_name ''faf5_merged.csv''"
proof -
  have "''faf5_merged.csv'' \<notin> set excluded_filenames"
    "lower ''faf5_merged.csv'' \<in> set (map lower excluded_filenames)"
    by code_simp+
  with exclusion_is_case_sensitive [of "''faf5_merged.csv''"] show ?thesis
    by blast
qed

section \<open>Nothing to merge\<close>

text \<open>
  Claim C6. When the source directory exists and its listing holds no eligible CSV file
  name, \<open>read_all_faf5_csvs\<close> returns the empty table (no columns, no rows) and raises
  nothing, and \<open>main\<close> ends without an exception and without having written any file:
  neither the merged nor the cleaned, profile or issues output.
\<close>

theorem no_eligible_files_early_exit:
  "isdir fs faf5_dir \<and> listdir fs faf5_dir = Some listing \<and> filter allowed_name listing = []
   \<longrightarrow> read_all_faf5_csvs fs faf5_dir = Inr empty_table
       \<and> columns empty_table = [] \<and> nrows empty_table = 0
       \<and> main sqroot str_of to_num fs faf5_dir = (None, [])"
proof
  assume a: "isdir fs faf5_dir \<and> listdir fs faf5_dir = Some listing \<and> filter allowed_name listing = []"
  then have e: "filter allowed_name (sort listing) = []"
    by (simp add: filter_sort_Nil)
  have r: "read_all_faf5_csvs fs faf5_dir = Inr empty_table"
    unfolding read_all_faf5_csvs_cases using a e by simp
  have "df_empty empty_table"
    by (simp add: df_empty_def empty_table_def)
  with r have "main sqroot str_of to_num fs faf5_dir = (None, [])"
    by (simp add: main_def)
  with r show "read_all_faf5_csvs fs faf5_dir = Inr empty_table
       \<and> columns empty_table = [] \<and> nrows empty_table = 0
       \<and> main sqroot str_of to_num fs faf5_dir = (None, [])"
    by (simp add: empty_table_def nrows_def)
qed

theorem no_eligible_files_early_exit_witness:
  "isdir csvless_fs ''data'' \<and> listdir csvless_fs ''data'' = Some [''notes.txt'']
   \<and> filter allowed_name [''notes.txt''] = []
   \<and> read_all_faf5_csvs csvless_fs ''data'' = Inr empty_table
   \<and> main sqrt no_text example_parser csvless_fs ''data'' = (None, [])"
proof -
  have h: "isdir csvless_fs ''data'' \<and> listdir csvless_fs ''data'' = Some [''notes.txt'']
      \<and> filter allowed_name [''notes.txt''] = []"
    by code_simp
  with no_eligible_files_early_exit [of csvless_fs "''data''" "[''notes.txt'']" sqrt no_text example_parser]
  show ?thesis by blast
qed

end
